theory Spec2Isabelle
  imports Main "HOL-Library.Word"
begin

section \<open>Data model (api/v1alpha1/keyprofile\_types.go)\<close>

text \<open>
  A \<open>time.Time\<close> is modelled by the number of nanoseconds between the zero instant
  \<open>time.Time{}\<close> and the instant it denotes, so \<open>IsZero\<close> is equality with 0,
  \<open>t.Add(d)\<close> is addition and \<open>t.After(u)\<close> is \<open>u < t\<close>. A \<open>time.Duration\<close>
  is a count of nanoseconds, an int64 in Go: the one product of durations in this development
  (\<open>ValidateRotationPolicy\<close>) wraps around, and \<open>Add\<close> saturates only at the ends of the
  representable time range, beyond any timestamp a profile can carry.
\<close>

type_synonym time = int
type_synonym duration = int

definition zeroTime :: time where
  "zeroTime = 0"

definition Add :: "time \<Rightarrow> duration \<Rightarrow> time" where
  "Add t d = t + d"

definition After :: "time \<Rightarrow> time \<Rightarrow> bool" where
  "After t u = (u < t)"

definition Hour :: duration where
  "Hour = 3600000000000"

definition Minute :: duration where
  "Minute = 60000000000"

text \<open>The value of an int64 expression whose mathematical value is \<open>x\<close>.\<close>

definition wrap64 :: "int \<Rightarrow> int" where
  "wrap64 x = (x + 9223372036854775808) mod 18446744073709551616 - 9223372036854775808"

record ServiceAccountReference =
  sa_Name :: string
  sa_Namespace :: string

record KeySpec =
  ks_Algorithm :: string
  ks_Params :: "string \<rightharpoonup> string"
  ks_Encoding :: string
  ks_AllowLegacyKeySize :: bool

record RotationPolicy =
  Interval :: duration
  GracePeriod :: duration
  TriggerOnStartup :: bool

record OutputConfig =
  SecretName :: string
  oc_Format :: string
  Labels :: "string \<rightharpoonup> string"

record TLSConfig =
  CACertSecretRef :: string
  ClientCertSecretRef :: string
  InsecureSkipVerify :: bool

record PublishTarget =
  pt_Type :: string
  Config :: "string \<rightharpoonup> string"
  TLS :: "TLSConfig option"

record KeyProfileSpec =
  ServiceAccountRef :: ServiceAccountReference
  spec_KeySpec :: KeySpec
  Rotation :: RotationPolicy
  Output :: OutputConfig
  Publish :: "PublishTarget list"

text \<open>\<open>LastRotation\<close> and \<open>NextRotation\<close> are pointers (\<open>*metav1.Time\<close>): \<open>None\<close> is nil.\<close>

record KeyProfileStatus =
  Phase :: string
  CurrentKeyID :: string
  PreviousKeyID :: string
  CurrentKeyFingerprint :: string
  PreviousKeyFingerprint :: string
  LastRotation :: "time option"
  NextRotation :: "time option"

record KeyProfile =
  Name :: string
  Namespace :: string
  Spec :: KeyProfileSpec
  Status :: KeyProfileStatus

section \<open>Errors\<close>

text \<open>
  A Go \<open>error\<close> is a value. \<open>Lib m\<close> is an error handed back by a library or by a
  collaborator behind an interface, known only by its message; \<open>Wrap p e\<close> is
  \<open>fmt.Errorf(p + ": %w", e)\<close>; every other constructor is one \<open>fmt.Errorf\<close> of the
  repository, with the values its verbs format as arguments.
\<close>

datatype NumError = ErrSyntax | ErrRange

datatype error =
    Lib string
  | Wrap string error
  | NumErr NumError
  | UnsupportedAlgorithm string
    \<comment> \<open>unsupported algorithm %q, must be one of: EC, RSA\<close>
  | ECCurveRequired
    \<comment> \<open>EC algorithm requires 'curve' parameter\<close>
  | UnsupportedECCurve string
    \<comment> \<open>unsupported EC curve %q, must be one of: P-256, P-384, P-521\<close>
  | RSAKeySizeRequired
    \<comment> \<open>RSA algorithm requires 'keySize' parameter\<close>
  | InvalidRSAKeySize string error
    \<comment> \<open>invalid RSA keySize %q: %w\<close>
  | UnsupportedRSAKeySize int
    \<comment> \<open>unsupported RSA keySize %d, must be one of: 2048, 3072, 4096\<close>
  | RSABelowMinimum int int
    \<comment> \<open>RSA keySize %d is below absolute minimum %d\<close>
  | RSADeprecated int int
    \<comment> \<open>RSA keySize %d is deprecated per BSI TR-02102-1 (2025): set allowLegacyKeySize=true ...\<close>
  | GenUnsupportedAlgorithm string
    \<comment> \<open>unsupported algorithm: %s\<close>
  | UnsupportedCurve string
    \<comment> \<open>unsupported curve: %s\<close>
  | FingerprintNilKey
    \<comment> \<open>cannot compute fingerprint: public key is nil\<close>
  | UnknownPublisherType nat string
    \<comment> \<open>target[%d]: unknown publisher type %q\<close>
  | TargetFailed nat string error
    \<comment> \<open>target[%d] (%s) failed: %w\<close>
  | PublishErrors "error list"
    \<comment> \<open>publish errors: %v\<close>
  | RenderNilKeyPair
    \<comment> \<open>cannot render nil KeyPair\<close>
  | UnsupportedEncoding string
    \<comment> \<open>unsupported encoding: %s\<close>
  | UnsupportedOutputFormat string
    \<comment> \<open>unsupported output format: %s\<close>
  | JKSPasswordRequired
    \<comment> \<open>password is required for JKS format\<close>
  | NamespaceMismatch string string
    \<comment> \<open>serviceAccountRef.namespace %q must match KeyProfile namespace %q\<close>
  | GracePeriodBelowMinimum duration duration
    \<comment> \<open>gracePeriod %s is below minimum %s (NIST SP 800-57)\<close>
  | IntervalBelowMinimum duration int duration duration
    \<comment> \<open>interval %s must be at least %dx gracePeriod (%s), minimum: %s\<close>

section \<open>Decimal strings (strconv.Atoi, the \<open>%d\<close> verb)\<close>

type_synonym byte = "8 word"

definition isDigit :: "char \<Rightarrow> bool" where
  "isDigit c = (48 \<le> (of_char c :: nat) \<and> (of_char c :: nat) \<le> 57)"

definition digitVal :: "char \<Rightarrow> nat" where
  "digitVal c = (of_char c :: nat) - 48"

text \<open>
  \<open>strconv.ParseUint(s, 10, 64)\<close>: the digits are read left to right; a byte that is not a
  decimal digit is a syntax error, a value beyond \<open>2^64 - 1\<close> a range error, whichever comes
  first.
\<close>

fun parseUint :: "nat \<Rightarrow> string \<Rightarrow> NumError + nat" where
  "parseUint n [] = Inr n"
| "parseUint n (c # cs) =
     (if \<not> isDigit c then Inl ErrSyntax
      else if n \<ge> 1844674407370955162 then Inl ErrRange
      else
        let n1 = n * 10 + digitVal c in
        if n1 > 18446744073709551615 then Inl ErrRange else parseUint n1 cs)"

text \<open>
  \<open>strconv.Atoi\<close> where \<open>int\<close> has 64 bits: an optional sign, then at least one digit, and
  the value within \<open>[-2^63, 2^63 - 1]\<close>. (Its fast path for short strings computes the same
  result as \<open>ParseInt(s, 10, 0)\<close>, which this follows.)
\<close>

definition Atoi :: "string \<Rightarrow> NumError + int" where
  "Atoi s =
     (case s of
        [] \<Rightarrow> Inl ErrSyntax
      | c # cs \<Rightarrow>
          let neg = (c = CHR ''-'');
              ds = (if c = CHR ''+'' \<or> c = CHR ''-'' then cs else s)
          in
          if ds = [] then Inl ErrSyntax
          else
            (case parseUint 0 ds of
               Inl e \<Rightarrow> Inl e
             | Inr un \<Rightarrow>
                 if \<not> neg \<and> un \<ge> 9223372036854775808 then Inl ErrRange
                 else if neg \<and> un > 9223372036854775808 then Inl ErrRange
                 else Inr (if neg then - int un else int un)))"

function digitsOf :: "nat \<Rightarrow> string" where
  "digitsOf n =
     (if n < 10 then [char_of (48 + n)]
      else digitsOf (n div 10) @ [char_of (48 + n mod 10)])"
  by pat_completeness auto
termination
  by (relation "measure (\<lambda>n. n)") auto

text \<open>The \<open>%d\<close> verb of \<open>fmt\<close> on an \<open>int\<close>.\<close>

definition fmtInt :: "int \<Rightarrow> string" where
  "fmtInt i = (if i < 0 then CHR ''-'' # digitsOf (nat (- i)) else digitsOf (nat i))"

section \<open>Key spec validation (pkg/crypto, validate.go)\<close>

definition AlgorithmEC :: string where "AlgorithmEC = ''EC''"
definition AlgorithmRSA :: string where "AlgorithmRSA = ''RSA''"

definition CurveP256 :: string where "CurveP256 = ''P-256''"
definition CurveP384 :: string where "CurveP384 = ''P-384''"
definition CurveP521 :: string where "CurveP521 = ''P-521''"

definition RSAMinKeySize :: int where "RSAMinKeySize = 2048"
definition RSARecommendedMinKeySize :: int where "RSARecommendedMinKeySize = 3072"

text \<open>A \<open>map[...]bool\<close> read at a missing key gives \<open>false\<close>.\<close>

definition validCurves :: "string \<Rightarrow> bool" where
  "validCurves c = (c = CurveP256 \<or> c = CurveP384 \<or> c = CurveP521)"

definition validRSAKeySizes :: "int \<Rightarrow> bool" where
  "validRSAKeySizes k = (k = 2048 \<or> k = 3072 \<or> k = 4096)"

text \<open>
  The validators return \<open>(warnings, err)\<close>; a nil slice is the empty list, a nil error is
  \<open>None\<close>. \<open>params["k"]\<close> with the comma-ok form is the map lookup.
\<close>

definition validateEC :: "(string \<rightharpoonup> string) \<Rightarrow> string list \<times> error option" where
  "validateEC params =
     (case params ''curve'' of
        None \<Rightarrow> ([], Some ECCurveRequired)
      | Some curve \<Rightarrow>
          if curve = [] then ([], Some ECCurveRequired)
          else if \<not> validCurves curve then ([], Some (UnsupportedECCurve curve))
          else ([], None))"

definition validateRSA :: "(string \<rightharpoonup> string) \<Rightarrow> bool \<Rightarrow> string list \<times> error option" where
  "validateRSA params allowLegacy =
     (case params ''keySize'' of
        None \<Rightarrow> ([], Some RSAKeySizeRequired)
      | Some keySizeStr \<Rightarrow>
          if keySizeStr = [] then ([], Some RSAKeySizeRequired)
          else
            (case Atoi keySizeStr of
               Inl e \<Rightarrow> ([], Some (InvalidRSAKeySize keySizeStr (NumErr e)))
             | Inr keySize \<Rightarrow>
                 if \<not> validRSAKeySizes keySize then ([], Some (UnsupportedRSAKeySize keySize))
                 else if keySize < RSAMinKeySize
                 then ([], Some (RSABelowMinimum keySize RSAMinKeySize))
                 else if keySize < RSARecommendedMinKeySize then
                   (if \<not> allowLegacy
                    then ([], Some (RSADeprecated keySize RSARecommendedMinKeySize))
                    else ([''RSA keySize '' @ fmtInt keySize
                             @ '' is deprecated per BSI TR-02102-1 (2025). Migrate to >= ''
                             @ fmtInt RSARecommendedMinKeySize @ '' or EC P-256.''], None))
                 else ([], None)))"

definition ValidateKeySpec ::
  "string \<Rightarrow> (string \<rightharpoonup> string) \<Rightarrow> bool \<Rightarrow> string list \<times> error option" where
  "ValidateKeySpec algorithm params allowLegacy =
     (if algorithm = AlgorithmEC then validateEC params
      else if algorithm = AlgorithmRSA then validateRSA params allowLegacy
      else ([], Some (UnsupportedAlgorithm algorithm)))"

section \<open>Admission validation (pkg/validation, the KeyProfile webhook)\<close>

definition MinGracePeriod :: duration where
  "MinGracePeriod = 5 * Minute"

definition MinIntervalToGraceRatio :: int where
  "MinIntervalToGraceRatio = 3"

definition ValidateNamespaceMatch :: "string \<Rightarrow> string \<Rightarrow> error option" where
  "ValidateNamespaceMatch objectNamespace specNamespace =
     (if objectNamespace \<noteq> specNamespace
      then Some (NamespaceMismatch specNamespace objectNamespace)
      else None)"

definition ValidateRotationPolicy :: "duration \<Rightarrow> duration \<Rightarrow> error option" where
  "ValidateRotationPolicy interval gracePeriod =
     (if gracePeriod < MinGracePeriod
      then Some (GracePeriodBelowMinimum gracePeriod MinGracePeriod)
      else
        let minInterval = wrap64 (MinIntervalToGraceRatio * gracePeriod) in
        if interval < minInterval
        then Some (IntervalBelowMinimum interval MinIntervalToGraceRatio gracePeriod minInterval)
        else None)"

text \<open>
  The loop of \<open>validateKeyProfile\<close> over \<open>kp.Spec.Publish\<close> from index \<open>i\<close> on; the
  three bytes in the warning are the UTF-8 encoding of the dash of the source's message.
\<close>

fun tlsWarnings :: "nat \<Rightarrow> PublishTarget list \<Rightarrow> string list" where
  "tlsWarnings i [] = []"
| "tlsWarnings i (pub # rest) =
     (if pt_Type pub = ''http''
         \<and> (case TLS pub of None \<Rightarrow> False | Some t \<Rightarrow> InsecureSkipVerify t)
      then (''publish['' @ fmtInt (int i)
              @ '']: insecureSkipVerify=true disables TLS verification ''
              @ [CHR 0xE2, CHR 0x80, CHR 0x94] @ '' not recommended for production'')
             # tlsWarnings (Suc i) rest
      else tlsWarnings (Suc i) rest)"

definition validateKeyProfile :: "KeyProfile \<Rightarrow> string list \<times> error option" where
  "validateKeyProfile kp =
     (case ValidateNamespaceMatch (Namespace kp) (sa_Namespace (ServiceAccountRef (Spec kp))) of
        Some err \<Rightarrow> ([], Some (Wrap ''validation failed'' err))
      | None \<Rightarrow>
          (case ValidateRotationPolicy (Interval (Rotation (Spec kp)))
                  (GracePeriod (Rotation (Spec kp))) of
             Some err \<Rightarrow> ([], Some (Wrap ''validation failed'' err))
           | None \<Rightarrow>
               (case ValidateKeySpec (ks_Algorithm (spec_KeySpec (Spec kp)))
                       (ks_Params (spec_KeySpec (Spec kp)))
                       (ks_AllowLegacyKeySize (spec_KeySpec (Spec kp))) of
                  (warnings, Some err) \<Rightarrow> ([], Some (Wrap ''validation failed'' err))
                | (warnings, None) \<Rightarrow>
                    (warnings @ tlsWarnings 0 (Publish (Spec kp)), None))))"

section \<open>Fingerprint (pkg/crypto, fingerprint.go)\<close>

text \<open>
  Public key material is immutable in this program and is modelled by its value; a
  \<open>crypto.PublicKey\<close> is an interface value, \<open>None\<close> when nil.
  \<open>x509.MarshalPKIXPublicKey\<close> and \<open>sha256.Sum256\<close> are library functions and are
  parameters; \<open>base64.RawURLEncoding\<close> is written out.
\<close>

datatype pubkey =
    ECPublicKey string nat nat
  | RSAPublicKey nat nat
  | OtherPublicKey string

definition FingerprintPrefix :: string where
  "FingerprintPrefix = ''SHA256:''"

definition encodeURL :: string where
  "encodeURL = ''ABCDEFGHIJKLMNOPQRSTUVWXYZabcdefghijklmnopqrstuvwxyz0123456789-_''"

definition b64char :: "nat \<Rightarrow> char" where
  "b64char i = encodeURL ! (i mod 64)"

fun RawURLEncoding :: "byte list \<Rightarrow> string" where
  "RawURLEncoding [] = []"
| "RawURLEncoding [a] =
     (let v = unat a * 65536 in
      [b64char (v div 262144), b64char (v div 4096)])"
| "RawURLEncoding [a, b] =
     (let v = unat a * 65536 + unat b * 256 in
      [b64char (v div 262144), b64char (v div 4096), b64char (v div 64)])"
| "RawURLEncoding (a # b # c # rest) =
     (let v = unat a * 65536 + unat b * 256 + unat c in
      [b64char (v div 262144), b64char (v div 4096), b64char (v div 64), b64char v]
        @ RawURLEncoding rest)"

definition ComputeFingerprint ::
  "(pubkey option \<Rightarrow> error + byte list) \<Rightarrow> (byte list \<Rightarrow> byte list) \<Rightarrow> pubkey option
     \<Rightarrow> error + string" where
  "ComputeFingerprint MarshalPKIXPublicKey Sum256 pubKey =
     (case pubKey of
        None \<Rightarrow> Inl FingerprintNilKey
      | Some k \<Rightarrow>
          (case MarshalPKIXPublicKey (Some k) of
             Inl e \<Rightarrow> Inl (Wrap ''marshal public key to DER'' e)
           | Inr derBytes \<Rightarrow>
               let hash = Sum256 derBytes;
                   encoded = RawURLEncoding hash
               in Inr (FingerprintPrefix @ encoded)))"

section \<open>Key pairs and secure wipe (pkg/crypto, keygen.go)\<close>

text \<open>
  \<open>Wipe\<close> writes through pointers, so the objects it reaches live in an explicit store:
  byte buffers (the backing arrays of slices), \<open>big.Int\<close> values, and the private key
  structs. A nil pointer and a nil slice are \<open>None\<close>. A \<open>crypto.PrivateKey\<close> is an
  interface value: nil, a \<open>*ecdsa.PrivateKey\<close>, a \<open>*rsa.PrivateKey\<close> (either pointer may
  itself be nil inside a non-nil interface), or a value of some other type.
\<close>

type_synonym addr = nat

record ecdsa_PrivateKey =
  ec_PublicKey :: pubkey
  ec_D :: "addr option"

record rsa_PrivateKey =
  rsa_PublicKey :: pubkey
  rsa_D :: "addr option"
  rsa_Primes :: "addr option list"

record memory =
  buffers :: "addr \<Rightarrow> byte list"
  bigInts :: "addr \<Rightarrow> int"
  ecKeys :: "addr \<Rightarrow> ecdsa_PrivateKey"
  rsaKeys :: "addr \<Rightarrow> rsa_PrivateKey"

datatype PrivateKey =
    NilPrivateKey
  | ECPrivateKeyPtr "addr option"
  | RSAPrivateKeyPtr "addr option"
  | OtherPrivateKey

record KeyPair =
  KeyID :: string
  PrivateKey :: PrivateKey
  PublicKey :: "pubkey option"
  kp_Algorithm :: string
  CreatedAt :: time
  rawPrivateBytes :: "addr option"

datatype 'a outcome = Panic | Done 'a

text \<open>\<open>for i := range buf { buf[i] = 0 }\<close>\<close>

primrec zeroAll :: "byte list \<Rightarrow> byte list" where
  "zeroAll [] = []"
| "zeroAll (b # bs) = 0 # zeroAll bs"

definition zeroBuffer :: "memory \<Rightarrow> addr \<Rightarrow> memory" where
  "zeroBuffer mem a = mem\<lparr>buffers := (buffers mem)(a := zeroAll (buffers mem a))\<rparr>"

text \<open>\<open>(*big.Int).SetInt64\<close>\<close>

definition SetInt64 :: "memory \<Rightarrow> addr \<Rightarrow> int \<Rightarrow> memory" where
  "SetInt64 mem a v = mem\<lparr>bigInts := (bigInts mem)(a := v)\<rparr>"

text \<open>\<open>for i := range k.Primes { if k.Primes[i] != nil { k.Primes[i].SetInt64(0) } }\<close>\<close>

primrec wipePrimes :: "addr option list \<Rightarrow> memory \<Rightarrow> memory" where
  "wipePrimes [] mem = mem"
| "wipePrimes (p # ps) mem =
     wipePrimes ps (case p of None \<Rightarrow> mem | Some a \<Rightarrow> SetInt64 mem a 0)"

text \<open>
  The receiver \<open>kp\<close> is a pointer to the \<open>KeyPair\<close>; the struct is returned as \<open>Wipe\<close>
  leaves it, with the store. In the \<open>*rsa.PrivateKey\<close> case the source guards the write to
  \<open>k.D\<close> with \<open>k != nil\<close> and then ranges over \<open>k.Primes\<close> unguarded: on a nil
  \<open>k\<close> that read is a nil pointer dereference.
\<close>

definition Wipe :: "KeyPair option \<Rightarrow> memory \<Rightarrow> (KeyPair option \<times> memory) outcome" where
  "Wipe kp mem =
     (case kp of
        None \<Rightarrow> Done (None, mem)
      | Some k \<Rightarrow>
          let mem1 = (case rawPrivateBytes k of None \<Rightarrow> mem | Some a \<Rightarrow> zeroBuffer mem a);
              k1 = k\<lparr>rawPrivateBytes := None\<rparr>;
              cleared = k1\<lparr>PrivateKey := NilPrivateKey, PublicKey := None\<rparr>
          in
          (case PrivateKey k1 of
             ECPrivateKeyPtr p \<Rightarrow>
               (case p of
                  None \<Rightarrow> Done (Some cleared, mem1)
                | Some a \<Rightarrow>
                    (case ec_D (ecKeys mem1 a) of
                       None \<Rightarrow> Done (Some cleared, mem1)
                     | Some d \<Rightarrow> Done (Some cleared, SetInt64 mem1 d 0)))
           | RSAPrivateKeyPtr p \<Rightarrow>
               (case p of
                  None \<Rightarrow> Panic
                | Some a \<Rightarrow>
                    let mem2 = (case rsa_D (rsaKeys mem1 a) of
                                  None \<Rightarrow> mem1
                                | Some d \<Rightarrow> SetInt64 mem1 d 0)
                    in Done (Some cleared, wipePrimes (rsa_Primes (rsaKeys mem2 a)) mem2))
           | NilPrivateKey \<Rightarrow> Done (Some cleared, mem1)
           | OtherPrivateKey \<Rightarrow> Done (Some cleared, mem1)))"

section \<open>Key generation (pkg/crypto, keygen.go)\<close>

record GenerateOptions =
  go_Algorithm :: string
  go_Params :: "string \<rightharpoonup> string"
  go_AllowLegacyKeySize :: bool

datatype Curve = P256 | P384 | P521

text \<open>
  The standard library behind the generator, over a world \<open>'w\<close> that holds the random
  source, the clock and the memory the library allocates in. A generated private key is
  handed back as the address of its struct together with the public key it embeds; a
  marshalled key as the address of the fresh buffer.
\<close>

record 'w cryptolib =
  ecdsa_GenerateKey :: "Curve \<Rightarrow> 'w \<Rightarrow> (error + addr \<times> pubkey) \<times> 'w"
  rsa_GenerateKey :: "int \<Rightarrow> 'w \<Rightarrow> (error + addr \<times> pubkey) \<times> 'w"
  x509_MarshalECPrivateKey :: "addr \<Rightarrow> 'w \<Rightarrow> (error + addr) \<times> 'w"
  x509_MarshalPKCS1PrivateKey :: "addr \<Rightarrow> 'w \<Rightarrow> addr \<times> 'w"
  rand_Read :: "nat \<Rightarrow> 'w \<Rightarrow> (error + byte list) \<times> 'w"
  time_Now :: "'w \<Rightarrow> time"
  time_Format20060102 :: "time \<Rightarrow> string"

definition parseCurve :: "string \<Rightarrow> error + Curve" where
  "parseCurve name =
     (if name = CurveP256 then Inr P256
      else if name = CurveP384 then Inr P384
      else if name = CurveP521 then Inr P521
      else Inl (UnsupportedCurve name))"

definition hexdigit :: "nat \<Rightarrow> char" where
  "hexdigit i = ''0123456789abcdef'' ! (i mod 16)"

primrec hex_EncodeToString :: "byte list \<Rightarrow> string" where
  "hex_EncodeToString [] = []"
| "hex_EncodeToString (b # bs) =
     hexdigit (unat b div 16) # hexdigit (unat b) # hex_EncodeToString bs"

definition generateKeyID :: "'w cryptolib \<Rightarrow> string \<Rightarrow> string \<Rightarrow> 'w \<Rightarrow> (error + string) \<times> 'w" where
  "generateKeyID lib alg param w =
     (case rand_Read lib 3 w of
        (Inl e, w1) \<Rightarrow> (Inl (Wrap ''generating random bytes for key ID'' e), w1)
      | (Inr randomBytes, w1) \<Rightarrow>
          let date = time_Format20060102 lib (time_Now lib w1) in
          (Inr (alg @ ''-'' @ param @ ''-'' @ date @ ''-'' @ hex_EncodeToString randomBytes), w1))"

text \<open>A missing key of \<open>opts.Params\<close> reads as the empty string.\<close>

definition param :: "(string \<rightharpoonup> string) \<Rightarrow> string \<Rightarrow> string" where
  "param m k = (case m k of None \<Rightarrow> [] | Some v \<Rightarrow> v)"

definition generateEC :: "'w cryptolib \<Rightarrow> GenerateOptions \<Rightarrow> 'w \<Rightarrow> (error + KeyPair) \<times> 'w" where
  "generateEC lib opts w =
     (let curveName = param (go_Params opts) ''curve'' in
      case parseCurve curveName of
        Inl e \<Rightarrow> (Inl (Wrap ''EC key generation failed'' e), w)
      | Inr curve \<Rightarrow>
          (case ecdsa_GenerateKey lib curve w of
             (Inl e, w1) \<Rightarrow> (Inl (Wrap ''ecdsa.GenerateKey failed'' e), w1)
           | (Inr (privateKey, pub), w1) \<Rightarrow>
               (case x509_MarshalECPrivateKey lib privateKey w1 of
                  (Inl e, w2) \<Rightarrow> (Inl (Wrap ''marshal EC private key for wipe tracking'' e), w2)
                | (Inr rawBytes, w2) \<Rightarrow>
                    (case generateKeyID lib ''ec'' curveName w2 of
                       (Inl e, w3) \<Rightarrow> (Inl (Wrap ''key ID generation failed'' e), w3)
                     | (Inr keyID, w3) \<Rightarrow>
                         (Inr \<lparr>KeyID = keyID,
                               PrivateKey = ECPrivateKeyPtr (Some privateKey),
                               PublicKey = Some pub,
                               kp_Algorithm = AlgorithmEC,
                               CreatedAt = time_Now lib w3,
                               rawPrivateBytes = Some rawBytes\<rparr>, w3)))))"

definition generateRSA :: "'w cryptolib \<Rightarrow> GenerateOptions \<Rightarrow> 'w \<Rightarrow> (error + KeyPair) \<times> 'w" where
  "generateRSA lib opts w =
     (let keySizeStr = param (go_Params opts) ''keySize'' in
      case Atoi keySizeStr of
        Inl e \<Rightarrow> (Inl (InvalidRSAKeySize keySizeStr (NumErr e)), w)
      | Inr keySize \<Rightarrow>
          (case rsa_GenerateKey lib keySize w of
             (Inl e, w1) \<Rightarrow> (Inl (Wrap ''rsa.GenerateKey failed'' e), w1)
           | (Inr (privateKey, pub), w1) \<Rightarrow>
               (case x509_MarshalPKCS1PrivateKey lib privateKey w1 of
                  (rawBytes, w2) \<Rightarrow>
                    (case generateKeyID lib ''rsa'' keySizeStr w2 of
                       (Inl e, w3) \<Rightarrow> (Inl (Wrap ''key ID generation failed'' e), w3)
                     | (Inr keyID, w3) \<Rightarrow>
                         (Inr \<lparr>KeyID = keyID,
                               PrivateKey = RSAPrivateKeyPtr (Some privateKey),
                               PublicKey = Some pub,
                               kp_Algorithm = AlgorithmRSA,
                               CreatedAt = time_Now lib w3,
                               rawPrivateBytes = Some rawBytes\<rparr>, w3)))))"

definition Generate :: "'w cryptolib \<Rightarrow> GenerateOptions \<Rightarrow> 'w \<Rightarrow> (error + KeyPair) \<times> 'w" where
  "Generate lib opts w =
     (case snd (ValidateKeySpec (go_Algorithm opts) (go_Params opts) (go_AllowLegacyKeySize opts)) of
        Some err \<Rightarrow> (Inl (Wrap ''key generation validation failed'' err), w)
      | None \<Rightarrow>
          if go_Algorithm opts = AlgorithmEC then generateEC lib opts w
          else if go_Algorithm opts = AlgorithmRSA then generateRSA lib opts w
          else (Inl (GenUnsupportedAlgorithm (go_Algorithm opts)), w))"

section \<open>Calls to collaborators\<close>

text \<open>
  The functions below call libraries and collaborators behind interfaces. Each of them is a
  parameter that transforms a world \<open>'w\<close>; next to the world the state keeps the list of
  the calls made so far, in order, with what each returned where a claim depends on it.
  Reading the clock does not change the world.
\<close>

datatype call =
    CallPublish nat string "error option"
    \<comment> \<open>\<open>pub.Publish\<close> on the target with this index and type, and its result\<close>
  | CallSetPrivateKeyEntry string
    \<comment> \<open>\<open>ks.SetPrivateKeyEntry\<close> with this alias\<close>
  | CallStore
  | CallGenerate
  | CallPublishAll "error option"
  | CallWrite "error option"
  | CallWipe
  | ObserveKeyGenerationDuration string
  | IncRotationErrors string string
  | IncRotations string string

record 'w st =
  calls :: "call list"
  world :: 'w

section \<open>Publisher dispatch (pkg/publish/manager.go)\<close>

type_synonym 'w Publisher = "PublishTarget \<Rightarrow> KeyPair \<Rightarrow> 'w \<Rightarrow> error option \<times> 'w"

text \<open>
  The loop of \<open>PublishAll\<close> over \<open>targets\<close>, from index \<open>i\<close> on, with the errors
  collected so far.
\<close>

fun publishLoop ::
  "(string \<rightharpoonup> 'w Publisher) \<Rightarrow> KeyPair \<Rightarrow> nat \<Rightarrow> PublishTarget list \<Rightarrow> error list \<Rightarrow> 'w st
     \<Rightarrow> error list \<times> 'w st" where
  "publishLoop publishers kp i [] errs s = (errs, s)"
| "publishLoop publishers kp i (target # rest) errs s =
     (case publishers (pt_Type target) of
        None \<Rightarrow>
          publishLoop publishers kp (Suc i) rest
            (errs @ [UnknownPublisherType i (pt_Type target)]) s
      | Some pub \<Rightarrow>
          (case pub target kp (world s) of
             (r, w1) \<Rightarrow>
               let s1 = \<lparr>calls = calls s @ [CallPublish i (pt_Type target) r], world = w1\<rparr> in
               (case r of
                  Some err \<Rightarrow>
                    publishLoop publishers kp (Suc i) rest
                      (errs @ [TargetFailed i (pt_Type target) err]) s1
                | None \<Rightarrow> publishLoop publishers kp (Suc i) rest errs s1)))"

definition PublishAll ::
  "(string \<rightharpoonup> 'w Publisher) \<Rightarrow> PublishTarget list \<Rightarrow> KeyPair \<Rightarrow> 'w st \<Rightarrow> error option \<times> 'w st" where
  "PublishAll publishers targets kp s =
     (case publishLoop publishers kp 0 targets [] s of
        (errs, s1) \<Rightarrow>
          if length errs > 0 then (Some (PublishErrors errs), s1) else (None, s1))"

section \<open>Rendering (pkg/crypto encode.go, pkg/output/renderer.go)\<close>

datatype KeyEncoder = pemEncoder | derEncoder | jwkEncoder

definition NewKeyEncoder :: "string \<Rightarrow> error + KeyEncoder" where
  "NewKeyEncoder encoding =
     (if encoding = ''PEM'' then Inr pemEncoder
      else if encoding = ''DER'' then Inr derEncoder
      else if encoding = ''JWK'' then Inr jwkEncoder
      else Inl (UnsupportedEncoding encoding))"

record Certificate =
  SerialNumber :: nat
  CommonName :: string
  Organization :: "string list"
  NotBefore :: time
  NotAfter :: time
  KeyUsage :: nat
  ExtKeyUsage :: "nat list"
  BasicConstraintsValid :: bool

record PrivateKeyEntry =
  CreationTime :: time
  pke_PrivateKey :: "byte list"
  CertificateChain :: "(string \<times> byte list) list"

text \<open>
  The libraries behind the renderer: \<open>crypto/x509\<close>, \<open>encoding/pem\<close>, \<open>crypto/rand\<close>,
  the clock, and the keystore library with its store type \<open>'ks\<close>. The marshalling
  functions read the key a \<open>PrivateKey\<close> points to from the world. The two JWK functions
  stand for the JSON encoder of encode.go, which \<open>Render\<close> never selects.
\<close>

record ('w, 'ks) renderlib =
  x509_MarshalPKCS8PrivateKey :: "PrivateKey \<Rightarrow> 'w \<Rightarrow> error + byte list"
  x509_MarshalPKIXPublicKey :: "pubkey option \<Rightarrow> error + byte list"
  pem_EncodeToMemory :: "string \<Rightarrow> byte list \<Rightarrow> byte list"
  jwk_EncodePrivate :: "PrivateKey \<Rightarrow> 'w \<Rightarrow> error + byte list"
  jwk_EncodePublic :: "pubkey option \<Rightarrow> error + byte list"
  rand_Int :: "nat \<Rightarrow> 'w \<Rightarrow> (error + nat) \<times> 'w"
  rl_time_Now :: "'w \<Rightarrow> time"
  x509_CreateCertificate ::
    "Certificate \<Rightarrow> pubkey option \<Rightarrow> PrivateKey \<Rightarrow> 'w \<Rightarrow> (error + byte list) \<times> 'w"
  keystore_New :: 'ks
  ks_SetPrivateKeyEntry ::
    "'ks \<Rightarrow> string \<Rightarrow> PrivateKeyEntry \<Rightarrow> byte list \<Rightarrow> 'w \<Rightarrow> (error + 'ks) \<times> 'w"
  ks_Store :: "'ks \<Rightarrow> byte list \<Rightarrow> 'w \<Rightarrow> (error + byte list) \<times> 'w"

definition EncodePrivate ::
  "('w, 'ks) renderlib \<Rightarrow> KeyEncoder \<Rightarrow> PrivateKey \<Rightarrow> 'w \<Rightarrow> error + byte list" where
  "EncodePrivate lib e key w =
     (case e of
        pemEncoder \<Rightarrow>
          (case x509_MarshalPKCS8PrivateKey lib key w of
             Inl err \<Rightarrow> Inl (Wrap ''marshal private key to PKCS8'' err)
           | Inr derBytes \<Rightarrow> Inr (pem_EncodeToMemory lib ''PRIVATE KEY'' derBytes))
      | derEncoder \<Rightarrow>
          (case x509_MarshalPKCS8PrivateKey lib key w of
             Inl err \<Rightarrow> Inl (Wrap ''marshal private key to PKCS8 DER'' err)
           | Inr derBytes \<Rightarrow> Inr derBytes)
      | jwkEncoder \<Rightarrow> jwk_EncodePrivate lib key w)"

definition EncodePublic ::
  "('w, 'ks) renderlib \<Rightarrow> KeyEncoder \<Rightarrow> pubkey option \<Rightarrow> error + byte list" where
  "EncodePublic lib e key =
     (case e of
        pemEncoder \<Rightarrow>
          (case x509_MarshalPKIXPublicKey lib key of
             Inl err \<Rightarrow> Inl (Wrap ''marshal public key to PKIX'' err)
           | Inr derBytes \<Rightarrow> Inr (pem_EncodeToMemory lib ''PUBLIC KEY'' derBytes))
      | derEncoder \<Rightarrow>
          (case x509_MarshalPKIXPublicKey lib key of
             Inl err \<Rightarrow> Inl (Wrap ''marshal public key to PKIX DER'' err)
           | Inr derBytes \<Rightarrow> Inr derBytes)
      | jwkEncoder \<Rightarrow> jwk_EncodePublic lib key)"

definition FormatSplitPEM :: string where "FormatSplitPEM = ''split-pem''"
definition FormatSinglePEM :: string where "FormatSinglePEM = ''single-pem''"
definition FormatJKS :: string where "FormatJKS = ''jks''"

record RenderOptions =
  ro_Format :: string
  Password :: string
  Alias :: string

text \<open>\<open>[]byte(s)\<close>\<close>

definition bytesOf :: "string \<Rightarrow> byte list" where
  "bytesOf s = map (\<lambda>c. of_nat (of_char c)) s"

definition generateSelfSignedCert ::
  "('w, 'ks) renderlib \<Rightarrow> KeyPair \<Rightarrow> 'w \<Rightarrow> (error + byte list) \<times> 'w" where
  "generateSelfSignedCert lib kp w =
     (case rand_Int lib (2 ^ 128) w of
        (Inl err, w1) \<Rightarrow> (Inl (Wrap ''failed to generate serial number'' err), w1)
      | (Inr serialNumber, w1) \<Rightarrow>
          let template = \<lparr>SerialNumber = serialNumber,
                           CommonName = ''openUKR Generated Key'',
                           Organization = [''openUKR''],
                           NotBefore = rl_time_Now lib w1,
                           NotAfter = Add (rl_time_Now lib w1) (100 * 365 * 24 * Hour),
                           KeyUsage = 5,
                           ExtKeyUsage = [1],
                           BasicConstraintsValid = True\<rparr>
          in
          (case x509_CreateCertificate lib template (PublicKey kp) (PrivateKey kp) w1 of
             (Inl err, w2) \<Rightarrow> (Inl (Wrap ''failed to create certificate'' err), w2)
           | (Inr certBytes, w2) \<Rightarrow> (Inr certBytes, w2)))"

definition renderJKS ::
  "('w, 'ks) renderlib \<Rightarrow> KeyPair \<Rightarrow> RenderOptions \<Rightarrow> 'w st
     \<Rightarrow> (error + (string \<rightharpoonup> byte list)) \<times> 'w st" where
  "renderJKS lib kp opts s =
     (if Password opts = [] then (Inl JKSPasswordRequired, s)
      else
        let alias = (if Alias opts = [] then ''openukr-key'' else Alias opts) in
        case generateSelfSignedCert lib kp (world s) of
          (Inl err, w1) \<Rightarrow>
            (Inl (Wrap ''failed to generate self-signed cert for JKS'' err), s\<lparr>world := w1\<rparr>)
        | (Inr certBytes, w1) \<Rightarrow>
            let ks = keystore_New lib in
            (case x509_MarshalPKCS8PrivateKey lib (PrivateKey kp) w1 of
               Inl err \<Rightarrow>
                 (Inl (Wrap ''failed to marshal private key for JKS'' err), s\<lparr>world := w1\<rparr>)
             | Inr privKeyData \<Rightarrow>
                 let entry = \<lparr>CreationTime = rl_time_Now lib w1,
                              pke_PrivateKey = privKeyData,
                              CertificateChain = [(''X.509'', certBytes)]\<rparr>
                 in
                 (case ks_SetPrivateKeyEntry lib ks alias entry (bytesOf (Password opts)) w1 of
                    (r, w2) \<Rightarrow>
                      let s2 = \<lparr>calls = calls s @ [CallSetPrivateKeyEntry alias], world = w2\<rparr> in
                      (case r of
                         Inl err \<Rightarrow>
                           (Inl (Wrap ''failed to set private key entry in JKS'' err), s2)
                       | Inr ks1 \<Rightarrow>
                           (case ks_Store lib ks1 (bytesOf (Password opts)) w2 of
                              (r3, w3) \<Rightarrow>
                                let s3 = \<lparr>calls = calls s2 @ [CallStore], world = w3\<rparr> in
                                (case r3 of
                                   Inl err \<Rightarrow> (Inl (Wrap ''failed to store JKS'' err), s3)
                                 | Inr buf \<Rightarrow> (Inr [''keystore.jks'' \<mapsto> buf], s3)))))))"

definition Render ::
  "('w, 'ks) renderlib \<Rightarrow> KeyPair option \<Rightarrow> RenderOptions \<Rightarrow> 'w st
     \<Rightarrow> (error + (string \<rightharpoonup> byte list)) \<times> 'w st" where
  "Render lib kp opts s =
     (case kp of
        None \<Rightarrow> (Inl RenderNilKeyPair, s)
      | Some k \<Rightarrow>
          (case NewKeyEncoder ''PEM'' of
             Inl err \<Rightarrow> (Inl (Wrap ''failed to create PEM encoder'' err), s)
           | Inr encoder \<Rightarrow>
               (case EncodePrivate lib encoder (PrivateKey k) (world s) of
                  Inl err \<Rightarrow> (Inl (Wrap ''failed to encode private key'' err), s)
                | Inr privPEM \<Rightarrow>
                    (case EncodePublic lib encoder (PublicKey k) of
                       Inl err \<Rightarrow> (Inl (Wrap ''failed to encode public key'' err), s)
                     | Inr pubPEM \<Rightarrow>
                         if ro_Format opts = FormatSplitPEM then
                           (Inr [''tls.key'' \<mapsto> privPEM, ''tls.crt'' \<mapsto> pubPEM,
                                 ''public.pem'' \<mapsto> pubPEM], s)
                         else if ro_Format opts = FormatSinglePEM then
                           (Inr [''keypair.pem'' \<mapsto> privPEM @ pubPEM], s)
                         else if ro_Format opts = FormatJKS then renderJKS lib k opts s
                         else (Inl (UnsupportedOutputFormat (ro_Format opts)), s)))))"

section \<open>Rotation decision (pkg/rotation/manager.go)\<close>

text \<open>
  \<open>checkRotationNeeded\<close> reads the clock once (\<open>time.Now()\<close>); the reading is the argument
  \<open>now\<close>. The two \<open>%s\<close> verbs of the reason format a \<open>time.Duration\<close> and a
  \<open>time.Time\<close> with their \<open>String\<close> methods, which are the parameters \<open>fmtD\<close> and
  \<open>fmtT\<close>. \<open>(*metav1.Time).IsZero\<close> is true on a nil pointer, which is the \<open>None\<close> case.
\<close>

definition checkRotationNeeded ::
  "(duration \<Rightarrow> string) \<Rightarrow> (time \<Rightarrow> string) \<Rightarrow> KeyProfile \<Rightarrow> time \<Rightarrow> bool \<times> string" where
  "checkRotationNeeded fmtD fmtT profile now =
     (case LastRotation (Status profile) of
        None \<Rightarrow> (True, ''initial key generation'')
      | Some lastRot \<Rightarrow>
          if CurrentKeyID (Status profile) = [] \<or> lastRot = zeroTime
          then (True, ''initial key generation'')
          else
            let interval = Interval (Rotation (Spec profile)) in
            if interval = 0 then (False, ''rotation disabled (interval=0)'')
            else
              let nextRotation = Add lastRot interval in
              if After now nextRotation
              then (True, ''interval '' @ fmtD interval @ '' expired (due: '' @ fmtT nextRotation @ '')'')
              else (False, []))"

definition calculateNextRotation :: "time \<Rightarrow> duration \<Rightarrow> time" where
  "calculateNextRotation lastRot interval =
     (if interval = 0 then zeroTime else Add lastRot interval)"

section \<open>Rotation orchestration (pkg/rotation/manager.go)\<close>

record RotationResult =
  Rotated :: bool
  rr_KeyID :: string
  RotationTime :: time
  rr_NextRotation :: time
  Fingerprint :: string

text \<open>
  What the manager is built from and calls: the clock, the \<open>KeyGenerator\<close>, the
  \<open>Publisher\<close> and the \<open>SecretWriter\<close> behind their interfaces, and the library
  functions of \<open>ComputeFingerprint\<close> and of the reason's formatting. \<open>Generate\<close> returns
  either an error or a key pair. Logging is left out; the metrics are calls.
\<close>

record 'w deps =
  clock :: "'w \<Rightarrow> time"
  keygen_Generate :: "GenerateOptions \<Rightarrow> 'w \<Rightarrow> (error + KeyPair) \<times> 'w"
  publisher_PublishAll :: "PublishTarget list \<Rightarrow> KeyPair \<Rightarrow> 'w \<Rightarrow> error option \<times> 'w"
  writer_Write :: "KeyProfile \<Rightarrow> KeyPair \<Rightarrow> 'w \<Rightarrow> error option \<times> 'w"
  MarshalPKIXPublicKey :: "pubkey option \<Rightarrow> error + byte list"
  Sum256 :: "byte list \<Rightarrow> byte list"
  fmtDuration :: "duration \<Rightarrow> string"
  fmtTime :: "time \<Rightarrow> string"

text \<open>
  \<open>EnsureKey\<close>. The deferred \<open>kp.Wipe()\<close> runs at every return after a successful
  \<open>Generate\<close> and is the last call of each such path. \<open>profile.Status.LastRotation.Time\<close>
  dereferences the pointer, a panic when it is nil.
\<close>

definition EnsureKey ::
  "'w deps \<Rightarrow> KeyProfile \<Rightarrow> 'w st \<Rightarrow> (error + RotationResult) outcome \<times> 'w st" where
  "EnsureKey m profile s =
     (case checkRotationNeeded (fmtDuration m) (fmtTime m) profile (clock m (world s)) of
        (needsRotation, reason) \<Rightarrow>
          if \<not> needsRotation then
            (case LastRotation (Status profile) of
               None \<Rightarrow> (Panic, s)
             | Some lastRot \<Rightarrow>
                 let nextRot = calculateNextRotation lastRot (Interval (Rotation (Spec profile))) in
                 (Done (Inr \<lparr>Rotated = False,
                             rr_KeyID = CurrentKeyID (Status profile),
                             RotationTime = lastRot,
                             rr_NextRotation = nextRot,
                             Fingerprint = CurrentKeyFingerprint (Status profile)\<rparr>), s))
          else
            let opts = \<lparr>go_Algorithm = ks_Algorithm (spec_KeySpec (Spec profile)),
                        go_Params = ks_Params (spec_KeySpec (Spec profile)),
                        go_AllowLegacyKeySize = ks_AllowLegacyKeySize (spec_KeySpec (Spec profile))\<rparr>
            in
            (case keygen_Generate m opts (world s) of
               (r, w1) \<Rightarrow>
                 let s1 = \<lparr>calls = calls s @ [CallGenerate,
                                               ObserveKeyGenerationDuration (go_Algorithm opts)],
                           world = w1\<rparr>
                 in
                 (case r of
                    Inl err \<Rightarrow>
                      (Done (Inl (Wrap ''key generation failed'' err)),
                       s1\<lparr>calls := calls s1 @ [IncRotationErrors ''keygen'' (Namespace profile)]\<rparr>)
                  | Inr kp \<Rightarrow>
                      (case ComputeFingerprint (MarshalPKIXPublicKey m) (Sum256 m) (PublicKey kp) of
                         Inl err \<Rightarrow>
                           (Done (Inl (Wrap ''fingerprint computation failed'' err)),
                            s1\<lparr>calls := calls s1 @ [CallWipe]\<rparr>)
                       | Inr fingerprint \<Rightarrow>
                           (case publisher_PublishAll m (Publish (Spec profile)) kp (world s1) of
                              (perr, w2) \<Rightarrow>
                                let s2 = \<lparr>calls = calls s1 @ [CallPublishAll perr], world = w2\<rparr> in
                                (case perr of
                                   Some err \<Rightarrow>
                                     (Done (Inl (Wrap ''failed to publish public key'' err)),
                                      s2\<lparr>calls := calls s2
                                           @ [IncRotationErrors ''publish'' (Namespace profile),
                                              CallWipe]\<rparr>)
                                 | None \<Rightarrow>
                                     (case writer_Write m profile kp (world s2) of
                                        (werr, w3) \<Rightarrow>
                                          let s3 = \<lparr>calls = calls s2 @ [CallWrite werr],
                                                    world = w3\<rparr>
                                          in
                                          (case werr of
                                             Some err \<Rightarrow>
                                               (Done (Inl (Wrap ''failed to persist key material'' err)),
                                                s3\<lparr>calls := calls s3
                                                     @ [IncRotationErrors ''persist''
                                                          (Namespace profile),
                                                        CallWipe]\<rparr>)
                                           | None \<Rightarrow>
                                               let now = clock m (world s3);
                                                   nextRot = calculateNextRotation now
                                                     (Interval (Rotation (Spec profile)))
                                               in
                                               (Done (Inr \<lparr>Rotated = True,
                                                           rr_KeyID = KeyID kp,
                                                           RotationTime = now,
                                                           rr_NextRotation = nextRot,
                                                           Fingerprint = fingerprint\<rparr>),
                                                s3\<lparr>calls := calls s3
                                                     @ [IncRotations (kp_Algorithm kp)
                                                          (Namespace profile),
                                                        CallWipe]\<rparr>)))))))))"

section \<open>Example inputs\<close>

text \<open>
  A profile of namespace \<open>finance\<close> for an EC P-256 key with two publish targets, with the
  given current key ID, last rotation and rotation interval.
\<close>

definition mkProfile :: "string \<Rightarrow> time option \<Rightarrow> duration \<Rightarrow> KeyProfile" where
  "mkProfile keyID lastRot interval =
     \<lparr>Name = ''payments'', Namespace = ''finance'',
      Spec = \<lparr>ServiceAccountRef = \<lparr>sa_Name = ''payments-sa'', sa_Namespace = ''finance''\<rparr>,
               spec_KeySpec = \<lparr>ks_Algorithm = ''EC'', ks_Params = [''curve'' \<mapsto> ''P-256''],
                               ks_Encoding = ''PEM'', ks_AllowLegacyKeySize = False\<rparr>,
               Rotation = \<lparr>Interval = interval, GracePeriod = 5 * Minute,
                           TriggerOnStartup = False\<rparr>,
               Output = \<lparr>SecretName = ''payments-key'', oc_Format = ''split-pem'',
                         Labels = Map.empty\<rparr>,
               Publish = [\<lparr>pt_Type = ''http'', Config = Map.empty, TLS = None\<rparr>,
                          \<lparr>pt_Type = ''filesystem'', Config = Map.empty, TLS = None\<rparr>]\<rparr>,
      Status = \<lparr>Phase = ''Ready'', CurrentKeyID = keyID, PreviousKeyID = [],
                 CurrentKeyFingerprint = ''SHA256:TWFu'', PreviousKeyFingerprint = [],
                 LastRotation = lastRot, NextRotation = None\<rparr>\<rparr>"

definition exampleKeyPair :: KeyPair where
  "exampleKeyPair =
     \<lparr>KeyID = ''ec-P-256-20260101-a1b2c3'',
      PrivateKey = ECPrivateKeyPtr (Some 1),
      PublicKey = Some (ECPublicKey ''P-256'' 1 2),
      kp_Algorithm = ''EC'',
      CreatedAt = 1000,
      rawPrivateBytes = Some 0\<rparr>"

text \<open>
  Collaborators over a world that counts the calls made into it and is the clock's reading:
  a generator, a publisher and a writer that return the given results.
\<close>

definition mkDeps :: "error + KeyPair \<Rightarrow> error option \<Rightarrow> error option \<Rightarrow> nat deps" where
  "mkDeps g p w =
     \<lparr>clock = (\<lambda>n. int n),
      keygen_Generate = (\<lambda>opts n. (g, Suc n)),
      publisher_PublishAll = (\<lambda>targets kp n. (p, Suc n)),
      writer_Write = (\<lambda>profile kp n. (w, Suc n)),
      MarshalPKIXPublicKey = (\<lambda>k. Inr [1, 2, 3]),
      Sum256 = (\<lambda>der. [77, 97, 110]),
      fmtDuration = (\<lambda>d. ''24h0m0s''),
      fmtTime = (\<lambda>t. ''due'')\<rparr>"

definition s0 :: "nat st" where
  "s0 = \<lparr>calls = [], world = 5\<rparr>"

section \<open>The rotation decision and the next rotation time\<close>

text \<open>
  C8: \<open>calculateNextRotation\<close> is a total function of the last rotation and the interval.
  With interval 0 it returns the zero time, the absent sentinel, and with interval 0 the
  decision is to rotate only by the initial-generation rule, never by the timed one; for
  every interval above 0 it returns the last rotation plus the interval.
\<close>

theorem calculateNextRotation_total:
  "calculateNextRotation lastRot 0 = zeroTime
   \<and> (0 < interval \<longrightarrow> calculateNextRotation lastRot interval = lastRot + interval)
   \<and> (Interval (Rotation (Spec p)) = 0 \<longrightarrow>
        fst (checkRotationNeeded fd ft p now) =
          (CurrentKeyID (Status p) = [] \<or> LastRotation (Status p) = None
            \<or> LastRotation (Status p) = Some zeroTime))"
  by (simp add: calculateNextRotation_def checkRotationNeeded_def Add_def split: option.split)

theorem calculateNextRotation_total_witness:
  "calculateNextRotation 1000 0 = zeroTime
   \<and> (0::int) < 5 \<and> calculateNextRotation 1000 5 = 1005
   \<and> Interval (Rotation (Spec (mkProfile ''k1'' (Some 1000) 0))) = 0
   \<and> fst (checkRotationNeeded (\<lambda>d. []) (\<lambda>t. []) (mkProfile ''k1'' (Some 1000) 0) 99999) = False"
  using calculateNextRotation_total
          [of 1000 5 "mkProfile ''k1'' (Some 1000) 0" "\<lambda>d. []" "\<lambda>t. []" 99999]
  by (simp add: mkProfile_def zeroTime_def)

text \<open>
  C2, as stated, at a profile with no current key and no last rotation: the decision is to
  rotate, and the reason is the string \<open>initial key generation\<close>, not
  \<open>initial generation\<close>.
\<close>

theorem checkRotationNeeded_reason_counterexample:
  "checkRotationNeeded (\<lambda>d. []) (\<lambda>t. []) (mkProfile [] None (24 * Hour)) 0
     = (True, ''initial key generation'')
   \<and> snd (checkRotationNeeded (\<lambda>d. []) (\<lambda>t. []) (mkProfile [] None (24 * Hour)) 0)
       \<noteq> ''initial generation''"
  by (simp add: checkRotationNeeded_def mkProfile_def)

text \<open>
  C2, amended: the rotation decision follows the ordered rules. With no current key ID or no
  recorded last rotation (a nil or a zero timestamp) the decision is rotate with reason
  \<open>initial key generation\<close>. Otherwise, with the last rotation \<open>T\<close>: interval 0 never
  rotates; \<open>now\<close> strictly after \<open>T + interval\<close> rotates, and the reason contains the due
  time \<open>T + interval\<close> as the clock library prints it; else the decision is not to rotate.
  With an interval of 24 hours, \<open>now = T + 25h\<close> rotates and \<open>now = T + 23h\<close> does not.
\<close>

theorem checkRotationNeeded_rules:
  "((CurrentKeyID (Status p) = [] \<or> LastRotation (Status p) = None
       \<or> LastRotation (Status p) = Some zeroTime)
      \<longrightarrow> checkRotationNeeded fd ft p now = (True, ''initial key generation''))
   \<and> (CurrentKeyID (Status p) \<noteq> [] \<and> LastRotation (Status p) = Some T \<and> T \<noteq> zeroTime \<longrightarrow>
        (Interval (Rotation (Spec p)) = 0 \<longrightarrow> fst (checkRotationNeeded fd ft p now) = False)
      \<and> (Interval (Rotation (Spec p)) \<noteq> 0 \<and> T + Interval (Rotation (Spec p)) < now \<longrightarrow>
            fst (checkRotationNeeded fd ft p now) = True
          \<and> (\<exists>pre post. snd (checkRotationNeeded fd ft p now)
                = pre @ ft (T + Interval (Rotation (Spec p))) @ post))
      \<and> (Interval (Rotation (Spec p)) \<noteq> 0 \<and> \<not> T + Interval (Rotation (Spec p)) < now \<longrightarrow>
            fst (checkRotationNeeded fd ft p now) = False)
      \<and> (Interval (Rotation (Spec p)) = 24 * Hour \<longrightarrow>
            fst (checkRotationNeeded fd ft p (T + 25 * Hour)) = True
          \<and> fst (checkRotationNeeded fd ft p (T + 23 * Hour)) = False))"
proof -
  have reason: "\<exists>pre post. ''interval '' @ fd i @ '' expired (due: '' @ ft n @ '')'' = pre @ ft n @ post"
    for i n
    by (rule exI [of _ "''interval '' @ fd i @ '' expired (due: ''"], rule exI [of _ "'')''"]) simp
  show ?thesis
    using reason
    by (auto simp add: checkRotationNeeded_def Add_def After_def Hour_def Let_def
        split: option.split)
qed

theorem checkRotationNeeded_rules_witness:
  "checkRotationNeeded (\<lambda>d. ''24h0m0s'') (\<lambda>t. ''due'') (mkProfile [] (Some 1000) (24 * Hour)) 5
     = (True, ''initial key generation'')
   \<and> fst (checkRotationNeeded (\<lambda>d. ''24h0m0s'') (\<lambda>t. ''due'') (mkProfile ''k1'' (Some 1000) 0) 5)
       = False
   \<and> checkRotationNeeded (\<lambda>d. ''24h0m0s'') (\<lambda>t. ''due'') (mkProfile ''k1'' (Some 1000) (24 * Hour))
         (1000 + 25 * Hour)
       = (True, ''interval 24h0m0s expired (due: due)'')
   \<and> fst (checkRotationNeeded (\<lambda>d. ''24h0m0s'') (\<lambda>t. ''due'') (mkProfile ''k1'' (Some 1000) (24 * Hour))
         (1000 + 23 * Hour)) = False"
  using checkRotationNeeded_rules
          [of "mkProfile [] (Some 1000) (24 * Hour)" "\<lambda>d. ''24h0m0s''" "\<lambda>t. ''due''" 5 1000]
        checkRotationNeeded_rules
          [of "mkProfile ''k1'' (Some 1000) 0" "\<lambda>d. ''24h0m0s''" "\<lambda>t. ''due''" 5 1000]
        checkRotationNeeded_rules
          [of "mkProfile ''k1'' (Some 1000) (24 * Hour)" "\<lambda>d. ''24h0m0s''" "\<lambda>t. ''due''" 5 1000]
  by (simp add: mkProfile_def zeroTime_def Hour_def checkRotationNeeded_def Add_def After_def)

section \<open>The rotation engine\<close>

text \<open>
  C10: when the decision is not to rotate, a current key ID exists and a last rotation is
  recorded, and \<open>EnsureKey\<close> leaves the state as it was: no call to the generator, the
  publisher or the writer is made and the world is unchanged. It returns \<open>Rotated = false\<close>
  with the key ID, the fingerprint and the rotation time of the profile's status, and the next
  rotation computed from the stored last rotation and the policy's interval.
\<close>

theorem EnsureKey_no_rotation:
  assumes "fst (checkRotationNeeded (fmtDuration m) (fmtTime m) profile (clock m (world s))) = False"
  shows "\<exists>lastRot. LastRotation (Status profile) = Some lastRot
           \<and> CurrentKeyID (Status profile) \<noteq> [] \<and> lastRot \<noteq> zeroTime
           \<and> EnsureKey m profile s =
               (Done (Inr \<lparr>Rotated = False,
                           rr_KeyID = CurrentKeyID (Status profile),
                           RotationTime = lastRot,
                           rr_NextRotation =
                             calculateNextRotation lastRot (Interval (Rotation (Spec profile))),
                           Fingerprint = CurrentKeyFingerprint (Status profile)\<rparr>), s)"
proof (cases "LastRotation (Status profile)")
  case None
  with assms show ?thesis by (simp add: checkRotationNeeded_def)
next
  case (Some lastRot)
  with assms have "CurrentKeyID (Status profile) \<noteq> []" "lastRot \<noteq> zeroTime"
    by (auto simp add: checkRotationNeeded_def split: if_splits)
  moreover obtain r where
    "checkRotationNeeded (fmtDuration m) (fmtTime m) profile (clock m (world s)) = (False, r)"
    using assms
    by (cases "checkRotationNeeded (fmtDuration m) (fmtTime m) profile (clock m (world s))") simp
  ultimately show ?thesis using Some
    by (simp add: EnsureKey_def)
qed

theorem EnsureKey_no_rotation_witness:
  "fst (checkRotationNeeded (fmtDuration (mkDeps (Inr exampleKeyPair) None None))
          (fmtTime (mkDeps (Inr exampleKeyPair) None None))
          (mkProfile ''k1'' (Some 1000) (24 * Hour))
          (clock (mkDeps (Inr exampleKeyPair) None None) (world s0))) = False
   \<and> EnsureKey (mkDeps (Inr exampleKeyPair) None None) (mkProfile ''k1'' (Some 1000) (24 * Hour)) s0
       = (Done (Inr \<lparr>Rotated = False, rr_KeyID = ''k1'', RotationTime = 1000,
                     rr_NextRotation = 1000 + 24 * Hour, Fingerprint = ''SHA256:TWFu''\<rparr>), s0)"
  using EnsureKey_no_rotation
          [of "mkDeps (Inr exampleKeyPair) None None" "mkProfile ''k1'' (Some 1000) (24 * Hour)" s0]
  by (simp add: mkDeps_def mkProfile_def s0_def checkRotationNeeded_def calculateNextRotation_def
      zeroTime_def Add_def After_def Hour_def)

section \<open>Key spec validation\<close>

lemma Atoi_nonempty: "Atoi str = Inr k \<Longrightarrow> str \<noteq> []"
  by (auto simp add: Atoi_def)

text \<open>
  C4: for an RSA key spec whose \<open>keySize\<close> parameter parses to the integer \<open>keySize\<close>,
  \<open>ValidateKeySpec\<close> rejects every size outside 2048, 3072 and 4096; without the legacy
  flag it accepts a size of that set exactly when the size is at least 3072; it accepts 2048
  exactly when the legacy flag is set, and then returns at least one warning; for sizes of
  at least 3072 it returns no warning.
\<close>

theorem ValidateKeySpec_RSA_keySize:
  assumes "params ''keySize'' = Some str" and "Atoi str = Inr keySize"
  shows "(keySize \<notin> {2048, 3072, 4096} \<longrightarrow>
            ValidateKeySpec AlgorithmRSA params allowLegacy
              = ([], Some (UnsupportedRSAKeySize keySize)))
       \<and> (keySize \<in> {2048, 3072, 4096} \<longrightarrow>
            (snd (ValidateKeySpec AlgorithmRSA params False) = None) = (3072 \<le> keySize))
       \<and> (keySize = 2048 \<longrightarrow>
            (snd (ValidateKeySpec AlgorithmRSA params allowLegacy) = None) = allowLegacy
          \<and> (allowLegacy \<longrightarrow>
                1 \<le> length (fst (ValidateKeySpec AlgorithmRSA params allowLegacy))))
       \<and> (3072 \<le> keySize \<longrightarrow> fst (ValidateKeySpec AlgorithmRSA params allowLegacy) = [])"
proof -
  have "str \<noteq> []" using assms(2) by (rule Atoi_nonempty)
  then have "ValidateKeySpec AlgorithmRSA params b =
      (if \<not> validRSAKeySizes keySize then ([], Some (UnsupportedRSAKeySize keySize))
       else if keySize < RSAMinKeySize then ([], Some (RSABelowMinimum keySize RSAMinKeySize))
       else if keySize < RSARecommendedMinKeySize then
         (if \<not> b then ([], Some (RSADeprecated keySize RSARecommendedMinKeySize))
          else ([''RSA keySize '' @ fmtInt keySize
                   @ '' is deprecated per BSI TR-02102-1 (2025). Migrate to >= ''
                   @ fmtInt RSARecommendedMinKeySize @ '' or EC P-256.''], None))
       else ([], None))" for b
    using assms by (simp add: ValidateKeySpec_def validateRSA_def AlgorithmRSA_def AlgorithmEC_def)
  then show ?thesis
    by (auto simp add: validRSAKeySizes_def RSAMinKeySize_def RSARecommendedMinKeySize_def)
qed

theorem ValidateKeySpec_RSA_keySize_witness:
  "Atoi ''2048'' = Inr 2048 \<and> Atoi ''3072'' = Inr 3072 \<and> Atoi ''1024'' = Inr 1024
   \<and> ValidateKeySpec AlgorithmRSA [''keySize'' \<mapsto> ''1024''] True
        = ([], Some (UnsupportedRSAKeySize 1024))
   \<and> snd (ValidateKeySpec AlgorithmRSA [''keySize'' \<mapsto> ''2048''] False) \<noteq> None
   \<and> snd (ValidateKeySpec AlgorithmRSA [''keySize'' \<mapsto> ''2048''] True) = None
   \<and> 1 \<le> length (fst (ValidateKeySpec AlgorithmRSA [''keySize'' \<mapsto> ''2048''] True))
   \<and> ValidateKeySpec AlgorithmRSA [''keySize'' \<mapsto> ''3072''] False = ([], None)"
proof -
  have a: "Atoi ''2048'' = Inr 2048" "Atoi ''3072'' = Inr 3072" "Atoi ''1024'' = Inr 1024"
    by (simp_all add: Atoi_def isDigit_def digitVal_def)
  show ?thesis
    using a
      ValidateKeySpec_RSA_keySize [of "[''keySize'' \<mapsto> ''1024'']" "''1024''" 1024 True]
      ValidateKeySpec_RSA_keySize [of "[''keySize'' \<mapsto> ''2048'']" "''2048''" 2048 False]
      ValidateKeySpec_RSA_keySize [of "[''keySize'' \<mapsto> ''2048'']" "''2048''" 2048 True]
      ValidateKeySpec_RSA_keySize [of "[''keySize'' \<mapsto> ''3072'']" "''3072''" 3072 False]
    by (simp add: prod_eq_iff)
qed

lemma legacy_warning_text:
  "ValidateKeySpec AlgorithmRSA [''keySize'' \<mapsto> ''2048''] True
     = ([''RSA keySize 2048 is deprecated per BSI TR-02102-1 (2025). Migrate to >= 3072 or EC P-256.''], None)"
  by (simp add: ValidateKeySpec_def validateRSA_def AlgorithmRSA_def AlgorithmEC_def Atoi_def
      isDigit_def digitVal_def validRSAKeySizes_def RSAMinKeySize_def RSARecommendedMinKeySize_def
      fmtInt_def char_of_def bit_0)

section \<open>Fingerprints\<close>

lemma length_encodeURL: "length encodeURL = 64"
  by (simp add: encodeURL_def)

lemma b64char_in_alphabet: "b64char i \<in> set encodeURL"
  unfolding b64char_def by (rule nth_mem) (simp add: length_encodeURL)

lemma RawURLEncoding_length: "length (RawURLEncoding bs) = (4 * length bs + 2) div 3"
  by (induction bs rule: RawURLEncoding.induct) (simp_all add: Let_def)

lemma RawURLEncoding_alphabet: "set (RawURLEncoding bs) \<subseteq> set encodeURL"
  by (induction bs rule: RawURLEncoding.induct) (simp_all add: Let_def b64char_in_alphabet)

lemma RawURLEncoding_vectors:
  "RawURLEncoding [77, 97, 110] = ''TWFu''"
  "RawURLEncoding [77, 97] = ''TWE''"
  "RawURLEncoding [77] = ''TQ''"
  "RawURLEncoding [251, 255, 191, 0] = ''-_-_AA''"
  by (simp_all add: b64char_def encodeURL_def Let_def)

text \<open>
  C5: \<open>ComputeFingerprint\<close> is a function of the public key alone (it reads and writes no
  state). On a key that serializes to DER it returns \<open>SHA256:\<close> followed by the base64url
  encoding, without padding, of the SHA-256 hash of that DER encoding: the encoding has
  \<open>\<lceil>4n/3\<rceil>\<close> characters for \<open>n\<close> bytes, all of the URL-safe alphabet. It returns an error
  exactly when the key is nil or does not serialize.
\<close>

theorem ComputeFingerprint_spec:
  "(pubKey \<noteq> None \<and> marshal pubKey = Inr der \<longrightarrow>
      ComputeFingerprint marshal sha256 pubKey = Inr (''SHA256:'' @ RawURLEncoding (sha256 der)))
   \<and> ((\<exists>e. ComputeFingerprint marshal sha256 pubKey = Inl e)
        = (pubKey = None \<or> (\<exists>e. marshal pubKey = Inl e)))
   \<and> length (RawURLEncoding hash) = (4 * length hash + 2) div 3
   \<and> set (RawURLEncoding hash) \<subseteq> set encodeURL"
  by (auto simp add: ComputeFingerprint_def FingerprintPrefix_def RawURLEncoding_length
      RawURLEncoding_alphabet split: option.splits sum.splits)

theorem ComputeFingerprint_spec_witness:
  "ComputeFingerprint (\<lambda>k. Inr [48, 3, 1]) (\<lambda>der. [77, 97, 110]) (Some (RSAPublicKey 3233 17))
     = Inr ''SHA256:TWFu''
   \<and> ComputeFingerprint (\<lambda>k. Inr [48, 3, 1]) (\<lambda>der. [77, 97, 110]) None = Inl FingerprintNilKey
   \<and> (\<exists>e. ComputeFingerprint (\<lambda>k. Inl (Lib ''unsupported public key type''))
             (\<lambda>der. [77, 97, 110]) (Some (OtherPublicKey ''ed25519'')) = Inl e)"
  using ComputeFingerprint_spec
          [of "Some (RSAPublicKey 3233 17)" "\<lambda>k. Inr [48, 3, 1]" "[48, 3, 1]" "\<lambda>der. [77, 97, 110]" "[]"]
        ComputeFingerprint_spec
          [of None "\<lambda>k. Inr [48, 3, 1]" "[]" "\<lambda>der. [77, 97, 110]" "[]"]
        ComputeFingerprint_spec
          [of "Some (OtherPublicKey ''ed25519'')" "\<lambda>k. Inl (Lib ''unsupported public key type'')"
              "[]" "\<lambda>der. [77, 97, 110]" "[]"]
  by (simp add: ComputeFingerprint_def FingerprintPrefix_def b64char_def encodeURL_def)

end
